theory Spec2Isabelle
  imports Complex_Main "HOL-Library.Multiset"
begin

section \<open>Test tiers (utils/test\_type.ts)\<close>

text \<open>
  The string enum \<open>TestType\<close> has three members. At run time a TypeScript string enum is an
  object whose own properties are the member names, in declaration order, each holding the
  member's string value (string enums have no reverse mapping). The object is kept as an
  association list, so that \<open>Object.values\<close> can be computed from it.
\<close>

datatype TestType = Sanity | Smoke | Regression

fun TestType_key :: "TestType \<Rightarrow> string" where
  "TestType_key Sanity = ''Sanity''"
| "TestType_key Smoke = ''Smoke''"
| "TestType_key Regression = ''Regression''"

fun TestType_value :: "TestType \<Rightarrow> string" where
  "TestType_value Sanity = ''sanity''"
| "TestType_value Smoke = ''smoke''"
| "TestType_value Regression = ''regression''"

definition TestType_object :: "(string \<times> string) list" where
  "TestType_object =
     [(TestType_key Sanity, TestType_value Sanity),
      (TestType_key Smoke, TestType_value Smoke),
      (TestType_key Regression, TestType_value Regression)]"

text \<open>\<open>Object.values(o)\<close>: the property values in property order.\<close>

definition Object_values :: "(string \<times> 'v) list \<Rightarrow> 'v list" where
  "Object_values obj = map snd obj"

text \<open>\<open>Array.prototype.includes\<close> on an array of strings (SameValueZero is equality there).\<close>

fun includes_arr :: "'a list \<Rightarrow> 'a \<Rightarrow> bool" where
  "includes_arr [] v = False"
| "includes_arr (x # xs) v = (if x = v then True else includes_arr xs v)"

definition is_valid_test_type :: "string \<Rightarrow> bool" where
  "is_valid_test_type type = includes_arr (Object_values TestType_object) type"

definition get_test_types :: "string list" where
  "get_test_types = Object_values TestType_object"

section \<open>The tier classifier (utils/helper.ts)\<close>

text \<open>
  \<open>getTestType\<close> is declared on \<open>string[]\<close> but guards against other run-time values with
  \<open>Array.isArray\<close>. The argument is therefore a JavaScript value: one of the non-array
  values, or an array whose elements are strings, as the signature declares.
\<close>

datatype js_value =
    JsUndefined
  | JsNull
  | JsBoolean bool
  | JsNumber int
  | JsString string
  | JsArray "string list"

datatype error = TypeError string

fun Array_isArray :: "js_value \<Rightarrow> bool" where
  "Array_isArray (JsArray xs) = True"
| "Array_isArray v = False"

text \<open>\<open>Array.prototype.join(sep)\<close>: the elements with the separator between neighbours.\<close>

fun join :: "string \<Rightarrow> string list \<Rightarrow> string" where
  "join sep [] = []"
| "join sep [x] = x"
| "join sep (x # y # ys) = x @ sep @ join sep (y # ys)"

text \<open>The elements of an array value (read only after \<open>Array.isArray\<close> has succeeded).\<close>

fun elements :: "js_value \<Rightarrow> string list" where
  "elements (JsArray xs) = xs"
| "elements v = []"

text \<open>
  \<^verbatim>\<open>
  if (!Array.isArray(t_type)) throw new TypeError('t_type must be an array of strings');
  if (t_type.length === 0)    throw new TypeError('t_type cannot be an empty array');
  return t_type.map(type => `@${type}`).join('');
  \<close>
\<close>

definition getTestType :: "js_value \<Rightarrow> error + string" where
  "getTestType t_type =
     (if \<not> Array_isArray t_type then
        Inl (TypeError ''t_type must be an array of strings'')
      else if length (elements t_type) = 0 then
        Inl (TypeError ''t_type cannot be an empty array'')
      else Inr (join '''' (map (\<lambda>type. ''@'' @ type) (elements t_type))))"

section \<open>The automation client, as the runners drive it\<close>

text \<open>
  The browser, the page under test and the automation library are outside the repository.
  A runner is modelled by the sequence of calls it makes on the automation client, in program
  order: every call is awaited, so the sequence is the order of execution. Whatever a runner
  reads back and branches on (the browser engine's name, a bounding box, an element handle)
  is an argument of its model. \<open>test.step(title, body)\<close> runs \<open>body\<close>; the titles are not
  kept.
\<close>

datatype locator =
    Css string              \<comment> \<open>\<open>page.locator(selector)\<close>\<close>
  | Sub locator string      \<comment> \<open>\<open>parent.locator(selector)\<close>\<close>
  | ByText string           \<comment> \<open>\<open>page.getByText(text)\<close>\<close>
  | ByRole string string    \<comment> \<open>\<open>page.getByRole(role, { name })\<close>\<close>
  | ByLabel string          \<comment> \<open>\<open>page.getByLabel(text)\<close>\<close>

datatype action =
    Goto string                                   \<comment> \<open>\<open>page.goto(path)\<close>\<close>
  | Fill locator string                           \<comment> \<open>\<open>locator.fill(value)\<close>\<close>
  | Press string                                  \<comment> \<open>\<open>page.keyboard.press(key)\<close>\<close>
  | Click locator                                 \<comment> \<open>\<open>locator.click()\<close>\<close>
  | DragTo locator locator "(real \<times> real) option"
      \<comment> \<open>\<open>source.dragTo(target, { targetPosition })\<close>, the position when one is given\<close>
  | DialogAccept "string option"                  \<comment> \<open>\<open>dialog.accept(promptText?)\<close>\<close>
  | DialogDismiss                                 \<comment> \<open>\<open>dialog.dismiss()\<close>\<close>
  | ExpectToBeVisible locator                     \<comment> \<open>\<open>expect(locator).toBeVisible()\<close>\<close>
  | ExpectToHaveText locator string               \<comment> \<open>\<open>expect(locator).toHaveText(text)\<close>\<close>
  | ExpectToContainText locator string            \<comment> \<open>\<open>expect(locator).toContainText(text)\<close>\<close>
  | ExpectValidationMessageToBe locator string
      \<comment> \<open>\<open>expect(await locator.evaluate(el => el.validationMessage)).toBe(text)\<close>\<close>
  | ConsoleLog string                             \<comment> \<open>\<open>console.log(line)\<close>\<close>

text \<open>The calls that can fail a test by themselves are the expectations.\<close>

fun is_expectation :: "action \<Rightarrow> bool" where
  "is_expectation (ExpectToBeVisible l) = True"
| "is_expectation (ExpectToHaveText l t) = True"
| "is_expectation (ExpectToContainText l t) = True"
| "is_expectation (ExpectValidationMessageToBe l t) = True"
| "is_expectation a = False"

fun is_drag :: "action \<Rightarrow> bool" where
  "is_drag (DragTo src tgt pos) = True"
| "is_drag a = False"

fun is_log :: "action \<Rightarrow> bool" where
  "is_log (ConsoleLog line) = True"
| "is_log a = False"

text \<open>Every table row carries a description and its tiers.\<close>

record test_case =
  t_case :: string
  t_type :: "TestType list"

text \<open>The tag under which a row's test is registered: \<open>getTestType(t_type)\<close>.\<close>

definition test_tag :: "'a test_case_scheme \<Rightarrow> error + string" where
  "test_tag tc = getTestType (JsArray (map TestType_value (t_type tc)))"

section \<open>The input-field suites\<close>

text \<open>
  The three suites (text, email, password) declare the same constants apart from the label
  of the field and the message for an invalid value.
\<close>

definition TXT_HEADING :: string where "TXT_HEADING = ''Input Field''"
definition TXT_MSG_VALID :: string where "TXT_MSG_VALID = ''Your input was:''"
definition TXT_MSG_MANDATORY :: string where "TXT_MSG_MANDATORY = ''Please fill out this field.''"
definition TXT_MSG_MANDATORY_WEBKIT :: string where
  "TXT_MSG_MANDATORY_WEBKIT = ''Fill out this field''"

definition TXT_LABEL_simple :: string where "TXT_LABEL_simple = ''Text string''"
definition TXT_LABEL_email :: string where "TXT_LABEL_email = ''Email''"
definition TXT_LABEL_passwd :: string where "TXT_LABEL_passwd = ''Password''"
definition TXT_MSG_INVALID_email :: string where
  "TXT_MSG_INVALID_email = ''Enter a valid email address.''"
definition TXT_MSG_INVALID_passwd :: string where
  "TXT_MSG_INVALID_passwd = ''Low password complexity''"

text \<open>
  In the text suite \<open>result_msg\<close> is a string or an array of strings; in the other two it
  is a string.
\<close>

datatype result_msg = Msg string | Msgs "string list"

record 'm input_case = test_case +
  is_valid :: bool
  result_msg :: 'm

record simple_case = "result_msg input_case" +
  input_str :: string

record email_case = "string input_case" +
  email_address :: string

record passwd_case = "string input_case" +
  password :: string

definition msg_pattern :: string where
  "msg_pattern = ''Enter a valid string consisting of letters, numbers, underscores or hyphens''"

definition simple_cases :: "simple_case list" where
  "simple_cases =
   [\<lparr>t_case = ''Valid string - normal chars, hypens and underscores'',
     t_type = [Sanity, Smoke, Regression], is_valid = True, result_msg = Msg TXT_MSG_VALID,
     input_str = ''This_Is-A_validString-123''\<rparr>,
    \<lparr>t_case = ''Valid string - normal chars'',
     t_type = [Regression], is_valid = True, result_msg = Msg TXT_MSG_VALID,
     input_str = ''ThisIsValidString123''\<rparr>,
    \<lparr>t_case = ''Valid string - with underscores'',
     t_type = [Regression], is_valid = True, result_msg = Msg TXT_MSG_VALID,
     input_str = ''This_is_valid_string_123''\<rparr>,
    \<lparr>t_case = ''Valid string - with hyphens'',
     t_type = [Regression], is_valid = True, result_msg = Msg TXT_MSG_VALID,
     input_str = ''This-is-valid-string-123''\<rparr>,
    \<lparr>t_case = ''Invalid string - empty'',
     t_type = [Sanity, Smoke, Regression], is_valid = False,
     result_msg = Msg TXT_MSG_MANDATORY,
     input_str = []\<rparr>,
    \<lparr>t_case = ''Invalid string - single character'',
     t_type = [Smoke, Regression], is_valid = False,
     result_msg = Msg ''Please enter 2 or more characters'',
     input_str = ''a''\<rparr>,
    \<lparr>t_case = ''Invalid string - single and special character'',
     t_type = [Smoke, Regression], is_valid = False,
     result_msg = Msgs [''Please enter 2 or more characters'', msg_pattern],
     input_str = ''@''\<rparr>,
    \<lparr>t_case = ''Invalid string with whitespaces'',
     t_type = [Smoke, Regression], is_valid = False, result_msg = Msg msg_pattern,
     input_str = ''Invalid string w spaces''\<rparr>,
    \<lparr>t_case = ''Invalid string with special characters'',
     t_type = [Smoke, Regression], is_valid = False, result_msg = Msg msg_pattern,
     input_str = ''Invalid_string_w_special$#@!''\<rparr>,
    \<lparr>t_case = ''Invalid string exceeds max chars'',
     t_type = [Smoke, Regression], is_valid = False,
     result_msg = Msg ''Please enter no more than 25 characters'',
     input_str = ''Invalid_string_0123456789-ExceedsMaxChars''\<rparr>,
    \<lparr>t_case = ''Invalid string exceeds max chars and contain special chars'',
     t_type = [Smoke, Regression], is_valid = False,
     result_msg = Msgs [''Please enter no more than 25 characters'', msg_pattern],
     input_str = ''Invalid_string_speci@l_chars!_&_ExceedsMaxChars''\<rparr>]"

definition email_cases :: "email_case list" where
  "email_cases =
   [\<lparr>t_case = ''Valid email - normal characters'',
     t_type = [Sanity, Smoke, Regression], is_valid = True, result_msg = TXT_MSG_VALID,
     email_address = ''josephnepomucin@icloud.com''\<rparr>,
    \<lparr>t_case = ''Valid email - normal characters and localhost domain'',
     t_type = [Smoke, Regression], is_valid = True, result_msg = TXT_MSG_VALID,
     email_address = ''josephnepomucin@localhost''\<rparr>,
    \<lparr>t_case = ''Valid email - normal characters and hypen in domain'',
     t_type = [Smoke, Regression], is_valid = True, result_msg = TXT_MSG_VALID,
     email_address = ''josephnepomucin@i-cloud.com''\<rparr>,
    \<lparr>t_case = ''Valid email - normal chars with dots'',
     t_type = [Regression], is_valid = True, result_msg = TXT_MSG_VALID,
     email_address = ''joseph.nepomucin@icloud.com''\<rparr>,
    \<lparr>t_case = ''Valid email - normal chars with dots and underscore'',
     t_type = [Regression], is_valid = True, result_msg = TXT_MSG_VALID,
     email_address = ''joseph.nepomucin_2025@icloud.com''\<rparr>,
    \<lparr>t_case = ''Valid email - normal chars with dots, underscore and hypen'',
     t_type = [Regression], is_valid = True, result_msg = TXT_MSG_VALID,
     email_address = ''j-seph.nepomucin_2025@icloud.com''\<rparr>,
    \<lparr>t_case = ''Valid email - normal chars with dots, underscore, hypen and special char'',
     t_type = [Regression], is_valid = True, result_msg = TXT_MSG_VALID,
     email_address = ''j-seph.nepomucin_2025_!@icloud.com''\<rparr>,
    \<lparr>t_case = ''Invalid email - empty'',
     t_type = [Sanity, Smoke, Regression], is_valid = False, result_msg = TXT_MSG_MANDATORY,
     email_address = []\<rparr>,
    \<lparr>t_case = ''Invalid email - single character'',
     t_type = [Sanity, Smoke, Regression], is_valid = False,
     result_msg = TXT_MSG_INVALID_email,
     email_address = ''a''\<rparr>,
    \<lparr>t_case = ''Invalid email - single and special character'',
     t_type = [Smoke, Regression], is_valid = False, result_msg = TXT_MSG_INVALID_email,
     email_address = ''@''\<rparr>,
    \<lparr>t_case = ''Invalid email with whitespaces'',
     t_type = [Smoke, Regression], is_valid = False, result_msg = TXT_MSG_INVALID_email,
     email_address = ''joseph nepomucin @ icloud . com''\<rparr>,
    \<lparr>t_case = ''Invalid email with special characters'',
     t_type = [Smoke, Regression], is_valid = False, result_msg = TXT_MSG_INVALID_email,
     email_address = ''joseph!nepomucin@ic!loud.com''\<rparr>,
    \<lparr>t_case = ''Invalid email with double @ symbol'',
     t_type = [Smoke, Regression], is_valid = False, result_msg = TXT_MSG_INVALID_email,
     email_address = ''josephnepomucin@@icloud.com''\<rparr>,
    \<lparr>t_case = ''Valid email - normal characters and underscore in domain'',
     t_type = [Smoke, Regression], is_valid = False, result_msg = TXT_MSG_INVALID_email,
     email_address = ''josephnepomucin@i_cloud.com''\<rparr>]"

definition passwd_cases :: "passwd_case list" where
  "passwd_cases =
   [\<lparr>t_case = ''Valid password - short 8 chars only'',
     t_type = [Sanity, Smoke, Regression], is_valid = True, result_msg = TXT_MSG_VALID,
     password = ''P@ssw0rd''\<rparr>,
    \<lparr>t_case = ''Valid password - long'',
     t_type = [Regression], is_valid = True, result_msg = TXT_MSG_VALID,
     password = ''P1e@seLetMeIn12345!^''\<rparr>,
    \<lparr>t_case = ''Invalid email - empty'',
     t_type = [Sanity, Smoke, Regression], is_valid = False, result_msg = TXT_MSG_MANDATORY,
     password = []\<rparr>,
    \<lparr>t_case = ''Invalid email - less than 8 chars'',
     t_type = [Smoke, Regression], is_valid = False, result_msg = TXT_MSG_INVALID_passwd,
     password = ''P@sw0rd''\<rparr>,
    \<lparr>t_case = ''Invalid email - no digit'',
     t_type = [Smoke, Regression], is_valid = False, result_msg = TXT_MSG_INVALID_passwd,
     password = ''P@ssword_nodigit''\<rparr>,
    \<lparr>t_case = ''Invalid email - no uppercase character'',
     t_type = [Smoke, Regression], is_valid = False, result_msg = TXT_MSG_INVALID_passwd,
     password = ''p@ssw0rd_no_upcase_char''\<rparr>,
    \<lparr>t_case = ''Invalid email - no lowercase character'',
     t_type = [Smoke, Regression], is_valid = False, result_msg = TXT_MSG_INVALID_passwd,
     password = ''P@SSW0RD_NO_LOWCASE_CHAR''\<rparr>,
    \<lparr>t_case = ''Invalid email - no special character'',
     t_type = [Smoke, Regression], is_valid = False, result_msg = TXT_MSG_INVALID_passwd,
     password = ''PassW0RDnoSpecialChar''\<rparr>]"

text \<open>
  Text suite, step `Verify result message':
  \<^verbatim>\<open>
  if (Array.isArray(result_msg)) {
      for (const msg of result_msg) await expect(page.getByText(msg)).toBeVisible();
  } else if (input_str === '') {
      if (browserName === 'webkit') result_msg = TXT_MSG_MANDATORY_WEBKIT;
      const validationMessage = await textbox.evaluate(el => el.validationMessage);
      expect(validationMessage).toBe(result_msg);
  } else {
      await expect(page.getByText(result_msg)).toBeVisible();
  }
  if (is_valid) await expect(page.getByText(input_str)).toBeVisible();
  \<close>
\<close>

definition verify_result_message_simple :: "string \<Rightarrow> simple_case \<Rightarrow> action list" where
  "verify_result_message_simple browserName tc =
     (case result_msg tc of
        Msgs msgs \<Rightarrow> map (\<lambda>msg. ExpectToBeVisible (ByText msg)) msgs
      | Msg m \<Rightarrow>
          if input_str tc = [] then
            [ExpectValidationMessageToBe (ByRole ''textbox'' TXT_LABEL_simple)
               (if browserName = ''webkit'' then TXT_MSG_MANDATORY_WEBKIT else m)]
          else [ExpectToBeVisible (ByText m)])
     @ (if is_valid tc then [ExpectToBeVisible (ByText (input_str tc))] else [])"

definition simple_input_test :: "string \<Rightarrow> simple_case \<Rightarrow> action list" where
  "simple_input_test browserName tc =
     [Goto ''/elements/input/simple'',
      ExpectToBeVisible (ByRole ''heading'' TXT_HEADING),
      ExpectToBeVisible (ByLabel TXT_LABEL_simple),
      Fill (ByRole ''textbox'' TXT_LABEL_simple) (input_str tc),
      Press ''Enter'']
     @ verify_result_message_simple browserName tc"

text \<open>The email and password suites have no array branch.\<close>

definition verify_result_message_email :: "string \<Rightarrow> email_case \<Rightarrow> action list" where
  "verify_result_message_email browserName tc =
     (if email_address tc = [] then
        [ExpectValidationMessageToBe (ByRole ''textbox'' TXT_LABEL_email)
           (if browserName = ''webkit'' then TXT_MSG_MANDATORY_WEBKIT else result_msg tc)]
      else [ExpectToBeVisible (ByText (result_msg tc))])
     @ (if is_valid tc then [ExpectToBeVisible (ByText (email_address tc))] else [])"

definition email_input_test :: "string \<Rightarrow> email_case \<Rightarrow> action list" where
  "email_input_test browserName tc =
     [Goto ''/elements/input/email'',
      ExpectToBeVisible (ByRole ''heading'' TXT_HEADING),
      ExpectToBeVisible (ByLabel TXT_LABEL_email),
      Fill (ByRole ''textbox'' TXT_LABEL_email) (email_address tc),
      Press ''Enter'']
     @ verify_result_message_email browserName tc"

definition verify_result_message_passwd :: "string \<Rightarrow> passwd_case \<Rightarrow> action list" where
  "verify_result_message_passwd browserName tc =
     (if password tc = [] then
        [ExpectValidationMessageToBe (ByRole ''textbox'' TXT_LABEL_passwd)
           (if browserName = ''webkit'' then TXT_MSG_MANDATORY_WEBKIT else result_msg tc)]
      else [ExpectToBeVisible (ByText (result_msg tc))])
     @ (if is_valid tc then [ExpectToBeVisible (ByText (password tc))] else [])"

definition passwd_input_test :: "string \<Rightarrow> passwd_case \<Rightarrow> action list" where
  "passwd_input_test browserName tc =
     [Goto ''/elements/input/passwd'',
      ExpectToBeVisible (ByRole ''heading'' TXT_HEADING),
      ExpectToBeVisible (ByLabel TXT_LABEL_passwd),
      Fill (ByRole ''textbox'' TXT_LABEL_passwd) (password tc),
      Press ''Enter'']
     @ verify_result_message_passwd browserName tc"

text \<open>
  What the page shows once the form was submitted, as far as the expectations of the
  verification step read it: which locators resolve to a visible element, and the native
  validation message of a field. An expectation that fails throws, so the expectations
  after it in the block are not run.
\<close>

record page_view =
  visible :: "locator \<Rightarrow> bool"
  text_of :: "locator \<Rightarrow> string"
  validationMessage :: "locator \<Rightarrow> string"

datatype failure = ExpectationFailed action | ActionTimedOut action | NotModelled action

fun holds :: "page_view \<Rightarrow> action \<Rightarrow> bool" where
  "holds v (ExpectToBeVisible l) = visible v l"
| "holds v (ExpectToHaveText l t) = (text_of v l = t)"
| "holds v (ExpectValidationMessageToBe l t) = (validationMessage v l = t)"
| "holds v a = True"

fun run_expectations :: "page_view \<Rightarrow> action list \<Rightarrow> failure + unit" where
  "run_expectations v [] = Inr ()"
| "run_expectations v (a # as) =
     (if holds v a then run_expectations v as else Inl (ExpectationFailed a))"

text \<open>A page on which every locator resolves to a visible element.\<close>

definition all_visible :: page_view where
  "all_visible = \<lparr>visible = (\<lambda>l. True), text_of = (\<lambda>l. []), validationMessage = (\<lambda>l. [])\<rparr>"

section \<open>The bounding-box reporter\<close>

text \<open>
  \<open>get_bounding_box_info(element, label)\<close> awaits \<open>element.elementHandle()\<close> (a handle or
  \<open>null\<close>), on a handle \<open>boundingBox()\<close> (a box or \<open>null\<close>) and, without a box,
  \<open>getBoundingClientRect()\<close> evaluated in the page. What these calls return is the argument
  \<open>element_handler\<close>. The numbers are printed with \<open>toFixed(1)\<close>, a function of the JavaScript
  run time, taken as the parameter \<open>toFixed1\<close>.
\<close>

record rect =
  rect_x :: real
  rect_y :: real
  rect_width :: real
  rect_height :: real

record element_handle =
  boundingBox :: "rect option"
  getBoundingClientRect :: rect


text \<open>
  The copy local to the box suite; it differs in the wording of the second line
  (\<open>top lect location\<close>).
\<close>

definition get_bounding_box_info_boxes ::
  "(real \<Rightarrow> string) \<Rightarrow> element_handle option \<Rightarrow> string \<Rightarrow> action list" where
  "get_bounding_box_info_boxes toFixed1 element_handler label =
     (case element_handler of
        Some h \<Rightarrow>
          (case boundingBox h of
             Some element_bb \<Rightarrow>
               [ConsoleLog (label @ '' bounding box top left location 1 -> x:''
                  @ toFixed1 (rect_x element_bb) @ '' y:'' @ toFixed1 (rect_y element_bb)
                  @ '' | dimensions -> width:'' @ toFixed1 (rect_width element_bb)
                  @ '' height:'' @ toFixed1 (rect_height element_bb))]
           | None \<Rightarrow>
               (let element_rect = getBoundingClientRect h in
                [ConsoleLog (label @ '' rectangle top lect location -> x:''
                   @ toFixed1 (rect_x element_rect) @ '' y:'' @ toFixed1 (rect_y element_rect)
                   @ '' | dimensions -> width:'' @ toFixed1 (rect_width element_rect)
                   @ '' height:'' @ toFixed1 (rect_height element_rect))]))
      | None \<Rightarrow> [ConsoleLog (label @ '' box not found'')])"

section \<open>The drag-and-drop suites\<close>

record dnd_case = test_case +
  is_positive :: bool
  expected_drop_box_txt :: string

record image_case = dnd_case +
  repeat :: nat
  is_loop_back :: bool

definition LABEL_DRAG_BOX :: string where "LABEL_DRAG_BOX = ''Drag me''"
definition LABEL_DROP_BOX :: string where "LABEL_DROP_BOX = ''Drop here''"
definition LABEL_BOX_DROPPED :: string where "LABEL_BOX_DROPPED = ''Dropped!''"
definition RECT_DROP_BOX :: string where "RECT_DROP_BOX = ''#rect-droppable''"
definition RECT_DRAG_BOX :: string where "RECT_DRAG_BOX = ''#rect-draggable''"
definition LOCATOR_DROP_BOX_TXT :: string where "LOCATOR_DROP_BOX_TXT = ''#text-droppable''"
definition RECT_BOX_1 :: string where "RECT_BOX_1 = ''#rect-droppable1''"
definition RECT_BOX_2 :: string where "RECT_BOX_2 = ''#rect-droppable2''"
definition X_OFFSET :: real where "X_OFFSET = 10"

subsection \<open>Boxes\<close>

definition box_cases :: "dnd_case list" where
  "box_cases =
   [\<lparr>t_case = ''Drag-me inside Drop-here'', t_type = [Sanity, Smoke, Regression],
     is_positive = True, expected_drop_box_txt = LABEL_BOX_DROPPED\<rparr>,
    \<lparr>t_case = ''Drag-me outside Drop-here'', t_type = [Smoke, Regression],
     is_positive = False, expected_drop_box_txt = LABEL_DROP_BOX\<rparr>]"

text \<open>
  Step `Perform drag and drop action and verify result' of the box suite. \<open>drop_box_bb\<close> is
  what \<open>drop_box.boundingBox()\<close> returns (read in the negative branch only); \<open>h_drop\<close> and
  \<open>h_drag\<close> are what the reporter obtains for the two boxes.
  \<^verbatim>\<open>
  if (is_positive) { await drag_box.dragTo(drop_box); }
  else {
      let drop_box_bb = await drop_box.boundingBox();
      if (drop_box_bb) {
          target_x = drop_box_bb.x + X_OFFSET; target_y = drop_box_bb.y;
          await drag_box.dragTo(content_box, { targetPosition: { x: target_x, y: target_y } });
      }
  }
  await expect(drop_box_txt).toHaveText(expected_drop_box_txt);
  \<close>
\<close>

definition drag_and_verify_boxes ::
  "(real \<Rightarrow> string) \<Rightarrow> dnd_case \<Rightarrow> rect option \<Rightarrow> element_handle option \<Rightarrow>
   element_handle option \<Rightarrow> action list" where
  "drag_and_verify_boxes toFixed1 tc drop_box_bb h_drop h_drag =
     [ConsoleLog (CHR 0x0A # ''After drag and drop step:'')]
     @ (if is_positive tc then [DragTo (Css RECT_DRAG_BOX) (Css RECT_DROP_BOX) None]
        else
          (case drop_box_bb of
             Some bb \<Rightarrow>
               [DragTo (Css RECT_DRAG_BOX) (Css ''div.content'')
                  (Some (rect_x bb + X_OFFSET, rect_y bb))]
           | None \<Rightarrow> []))
     @ [ExpectToHaveText (Css LOCATOR_DROP_BOX_TXT) (expected_drop_box_txt tc)]
     @ get_bounding_box_info_boxes toFixed1 h_drop LABEL_DROP_BOX
     @ get_bounding_box_info_boxes toFixed1 h_drag LABEL_DRAG_BOX"

subsection \<open>Images\<close>

definition image_cases :: "image_case list" where
  "image_cases =
   [\<lparr>t_case = ''From Box_1->Box_2'', t_type = [Sanity, Smoke, Regression],
     is_positive = True, expected_drop_box_txt = LABEL_BOX_DROPPED,
     repeat = 0, is_loop_back = False\<rparr>,
    \<lparr>t_case = ''From Box_1->Box_2->Box_1'', t_type = [Sanity, Smoke, Regression],
     is_positive = True, expected_drop_box_txt = LABEL_BOX_DROPPED,
     repeat = 0, is_loop_back = True\<rparr>,
    \<lparr>t_case = ''From Box_1->Box_2->Box_1 (1x loop back)'', t_type = [Smoke, Regression],
     is_positive = True, expected_drop_box_txt = LABEL_BOX_DROPPED,
     repeat = 1, is_loop_back = True\<rparr>,
    \<lparr>t_case = ''From Box_1->Box_2->Box_1 (2x loop back)'', t_type = [Regression],
     is_positive = True, expected_drop_box_txt = LABEL_BOX_DROPPED,
     repeat = 2, is_loop_back = True\<rparr>,
    \<lparr>t_case = ''From Box_1-> outside Box_2'', t_type = [Sanity, Smoke, Regression],
     is_positive = False, expected_drop_box_txt = [],
     repeat = 0, is_loop_back = False\<rparr>,
    \<lparr>t_case = ''From Box_1-> outside Box_2->Box_1'', t_type = [Sanity, Smoke, Regression],
     is_positive = False, expected_drop_box_txt = [],
     repeat = 0, is_loop_back = True\<rparr>,
    \<lparr>t_case = ''From Box_1-> outside Box_2->Box_1 (1x loop back)'',
     t_type = [Smoke, Regression],
     is_positive = False, expected_drop_box_txt = [],
     repeat = 1, is_loop_back = True\<rparr>,
    \<lparr>t_case = ''From Box_1-> outside Box_2->Box_1 (2x loop back)'', t_type = [Regression],
     is_positive = False, expected_drop_box_txt = [],
     repeat = 2, is_loop_back = True\<rparr>]"

definition drop_box_1 :: locator where "drop_box_1 = Css RECT_BOX_1"
definition drop_box_2 :: locator where "drop_box_2 = Css RECT_BOX_2"
definition content_box :: locator where "content_box = Css ''div.content''"
definition image_in_box_1 :: locator where "image_in_box_1 = Sub drop_box_1 ''img''"
definition image_in_box_2 :: locator where "image_in_box_2 = Sub drop_box_2 ''img''"
definition image_in_content :: locator where "image_in_content = Sub content_box ''img''"

text \<open>
  \<open>for (let i = 0; i <= repeat; i++) { body }\<close>, with a body that does not read \<open>i\<close>: the
  calls of the body, once per iteration.
\<close>

function for_i_upto :: "nat \<Rightarrow> nat \<Rightarrow> action list \<Rightarrow> action list" where
  "for_i_upto i n body = (if i \<le> n then body @ for_i_upto (i + 1) n body else [])"
  by pat_completeness auto
termination
  by (relation "measure (\<lambda>(i, n, body). n + 1 - i)") auto

text \<open>The body of the loop of the positive branch (lines 183 to 201).\<close>

definition positive_cycle :: "image_case \<Rightarrow> action list" where
  "positive_cycle tc =
     [DragTo image_in_box_1 drop_box_2 None,
      ConsoleLog (''Dragged image from '' @ RECT_BOX_1 @ '' to '' @ RECT_BOX_2),
      ExpectToBeVisible image_in_box_2,
      ConsoleLog (''Image found inside '' @ RECT_BOX_2),
      ExpectToHaveText drop_box_2 (expected_drop_box_txt tc),
      ConsoleLog (RECT_BOX_2 @ '' has text: '' @ [CHR 0x22] @ expected_drop_box_txt tc
        @ [CHR 0x22]),
      DragTo image_in_box_2 drop_box_1 None,
      ConsoleLog (''Dragged image back from '' @ RECT_BOX_2 @ '' to '' @ RECT_BOX_1),
      ExpectToBeVisible image_in_box_1,
      ConsoleLog (''Image found inside '' @ RECT_BOX_1)]"

text \<open>
  The drag of the negative branch, guarded by
  \<open>if (target_x !== undefined && target_y !== undefined)\<close>: both are set exactly when
  \<open>drop_box_2.boundingBox()\<close> returned a box.
\<close>

definition drag_outside_box_2 :: "rect option \<Rightarrow> action list" where
  "drag_outside_box_2 drop_box_2_bb =
     (case drop_box_2_bb of
        Some bb \<Rightarrow>
          [DragTo image_in_box_1 content_box (Some (rect_x bb + X_OFFSET, rect_y bb))]
      | None \<Rightarrow> [])"

text \<open>The body of the loop of the negative branch (lines 230 to 238).\<close>

definition negative_cycle :: "rect option \<Rightarrow> action list" where
  "negative_cycle drop_box_2_bb =
     drag_outside_box_2 drop_box_2_bb
     @ [ConsoleLog (''Dragged image from '' @ RECT_BOX_1 @ '' and dropped just outside of ''
          @ RECT_BOX_2),
        DragTo image_in_content drop_box_1 None,
        ConsoleLog (''Dragged image back to '' @ RECT_BOX_1)]"

text \<open>
  Step `Perform drag and drop action and verify result' of the image suite (lines 157 to
  243); \<open>drop_box_2_bb\<close> is what \<open>drop_box_2.boundingBox()\<close> returns in the negative
  branch.
\<close>

definition drag_and_verify_image :: "image_case \<Rightarrow> rect option \<Rightarrow> action list" where
  "drag_and_verify_image tc drop_box_2_bb =
     (if is_positive tc then
        (if \<not> is_loop_back tc then
           [DragTo image_in_box_1 drop_box_2 None,
            ConsoleLog (''Dragged image from '' @ RECT_BOX_1 @ '' to '' @ RECT_BOX_2),
            ExpectToBeVisible image_in_box_2,
            ConsoleLog (''Image found inside '' @ RECT_BOX_2),
            ExpectToHaveText drop_box_2 (expected_drop_box_txt tc),
            ConsoleLog (RECT_BOX_2 @ '' has text: '' @ [CHR 0x22] @ expected_drop_box_txt tc
              @ [CHR 0x22])]
         else for_i_upto 0 (repeat tc) (positive_cycle tc))
      else
        [ConsoleLog ''Drop image outside drop box 2 area.'']
        @ (if \<not> is_loop_back tc then
             drag_outside_box_2 drop_box_2_bb
             @ [ConsoleLog (''Dragged image from '' @ RECT_BOX_1
                  @ '' and dropped just outside of '' @ RECT_BOX_2)]
           else for_i_upto 0 (repeat tc) (negative_cycle drop_box_2_bb)))"

text \<open>The drags of a sequence of calls, each as its source and its target.\<close>

fun drags :: "action list \<Rightarrow> (locator \<times> locator) list" where
  "drags [] = []"
| "drags (DragTo src tgt pos # as) = (src, tgt) # drags as"
| "drags (a # as) = drags as"

subsection \<open>The page with the two squares and the smiley\<close>

text \<open>
  The page under test is not part of the repository. The header of the image suite states
  what is required of it: two squares, a smiley in the first; the smiley can be dragged
  from square to square any number of times; the square it is dropped into shows
  \<open>Dropped!\<close>; a square without the smiley is empty. The state below is the least that the
  calls of the drag step read: where the image is, and the text of the second square. A
  locator \<open>box.locator('img')\<close> resolves when the image is in that box; the one under
  \<open>div.content\<close>, the container of the squares, resolves wherever the image is. A call on
  a locator that does not resolve times out, and an expectation that does not hold fails;
  either ends the test. The calls that the drag step never makes are given no meaning.
\<close>

datatype img_location = InBox1 | InBox2 | OutsideBoxes

record dnd_page =
  img_loc :: img_location
  box_2_text :: string

definition image_found :: "dnd_page \<Rightarrow> locator \<Rightarrow> bool" where
  "image_found p l =
     (if l = image_in_box_1 then img_loc p = InBox1
      else if l = image_in_box_2 then img_loc p = InBox2
      else l = image_in_content)"

fun exec_dnd :: "dnd_page \<Rightarrow> action \<Rightarrow> failure + dnd_page" where
  "exec_dnd p (DragTo src tgt pos) =
     (if \<not> image_found p src then Inl (ActionTimedOut (DragTo src tgt pos))
      else if tgt = drop_box_1 \<and> pos = None then
        Inr (p\<lparr>img_loc := InBox1, box_2_text := []\<rparr>)
      else if tgt = drop_box_2 \<and> pos = None then
        Inr (p\<lparr>img_loc := InBox2, box_2_text := LABEL_BOX_DROPPED\<rparr>)
      else Inr (p\<lparr>img_loc := OutsideBoxes, box_2_text := []\<rparr>))"
| "exec_dnd p (ExpectToBeVisible l) =
     (if image_found p l then Inr p else Inl (ExpectationFailed (ExpectToBeVisible l)))"
| "exec_dnd p (ExpectToHaveText l t) =
     (if l = drop_box_2 \<and> box_2_text p = t then Inr p
      else Inl (ExpectationFailed (ExpectToHaveText l t)))"
| "exec_dnd p (ConsoleLog line) = Inr p"
| "exec_dnd p a = Inl (NotModelled a)"

fun run_dnd :: "dnd_page \<Rightarrow> action list \<Rightarrow> failure + dnd_page" where
  "run_dnd p [] = Inr p"
| "run_dnd p (a # as) = (case exec_dnd p a of Inl e \<Rightarrow> Inl e | Inr p' \<Rightarrow> run_dnd p' as)"

section \<open>The alert suites\<close>

record dialog =
  dialog_type :: string
  dialog_message :: string

definition LOCATOR_CLICK_BTN_STR :: string where "LOCATOR_CLICK_BTN_STR = ''a.a-button''"

text \<open>\<open>String.prototype.startsWith\<close> and \<open>String.prototype.includes\<close>.\<close>

fun startsWith :: "string \<Rightarrow> string \<Rightarrow> bool" where
  "startsWith s [] = True"
| "startsWith [] (c # cs) = False"
| "startsWith (a # as) (c # cs) = (a = c \<and> startsWith as cs)"

fun includes_str :: "string \<Rightarrow> string \<Rightarrow> bool" where
  "includes_str [] sub = (sub = [])"
| "includes_str (a # as) sub = (startsWith (a # as) sub \<or> includes_str as sub)"

record confirm_case = test_case +
  expected_txt :: string

record prompt_case = confirm_case +
  prompt_input :: string

definition RESULT_TXT_NONE :: string where "RESULT_TXT_NONE = ''You entered nothing''"
definition RESULT_TXT_CANCEL :: string where "RESULT_TXT_CANCEL = ''You canceled the prompt''"

definition confirm_cases :: "confirm_case list" where
  "confirm_cases =
   [\<lparr>t_case = ''Ok'', t_type = [Sanity, Smoke, Regression], expected_txt = ''Ok''\<rparr>,
    \<lparr>t_case = ''Cancel'', t_type = [Sanity, Smoke, Regression], expected_txt = ''Cancel''\<rparr>]"

definition prompt_cases :: "prompt_case list" where
  "prompt_cases =
   [\<lparr>t_case = ''Ok - with prompt input'', t_type = [Sanity, Smoke, Regression],
     expected_txt = ''This is a test prompt alert input text.'',
     prompt_input = ''This is a test prompt alert input text.''\<rparr>,
    \<lparr>t_case = ''Ok - without prompt input'', t_type = [Sanity, Smoke, Regression],
     expected_txt = RESULT_TXT_NONE, prompt_input = []\<rparr>,
    \<lparr>t_case = ''Cancel'', t_type = [Sanity, Smoke, Regression],
     expected_txt = RESULT_TXT_CANCEL, prompt_input = []\<rparr>]"

text \<open>
  Confirmation suite, step `Click button and confirm or cancel' (lines 104 to 127). One of
  three handlers is registered with \<open>page.on('dialog', ...)\<close>, by the label \<open>t_case\<close> of the
  row; the third branch logs a line before it registers its handler.
  \<open>confirmation_on_dialog\<close> is what the registered handler does with the dialog \<open>d\<close>. The
  click opens the dialog, which the handler answers: the handler's calls are listed after
  the click.
\<close>

definition confirmation_on_dialog :: "confirm_case \<Rightarrow> dialog \<Rightarrow> action list" where
  "confirmation_on_dialog tc d =
     (if t_case tc = ''Ok'' then
        [ConsoleLog (''Dialog message: '' @ dialog_message d), DialogAccept None]
      else if t_case tc = ''Cancel'' then
        [ConsoleLog (''Dialog message: '' @ dialog_message d), DialogDismiss]
      else [DialogDismiss])"

definition confirmation_click_step :: "confirm_case \<Rightarrow> dialog \<Rightarrow> action list" where
  "confirmation_click_step tc d =
     [ConsoleLog ''Click button and confirm or cancel.'']
     @ (if t_case tc = ''Ok'' then []
        else if t_case tc = ''Cancel'' then []
        else [ConsoleLog ''Unknown test case for dialog handling.''])
     @ [Click (Css LOCATOR_CLICK_BTN_STR)]
     @ confirmation_on_dialog tc d"

text \<open>
  Prompt suite, step `Click button, type prompt input text and confirm or cancel' (lines 242
  to 270): a single handler, which branches on the label when the dialog opens.
\<close>

definition prompt_on_dialog :: "prompt_case \<Rightarrow> dialog \<Rightarrow> action list" where
  "prompt_on_dialog tc d =
     [ConsoleLog (''Dialog type: '' @ dialog_type d),
      ConsoleLog (''Dialog message: '' @ dialog_message d)]
     @ (if includes_str (t_case tc) ''Ok'' then
          (if prompt_input tc \<noteq> [] then
             [ConsoleLog (''Type prompt input: '' @ prompt_input tc),
              DialogAccept (Some (prompt_input tc))]
           else [ConsoleLog ''No prompt input text provided.'', DialogAccept None])
          @ [ConsoleLog ''Click confirm.'']
        else if t_case tc = ''Cancel'' then [ConsoleLog ''Click cancel.'', DialogDismiss]
        else [ConsoleLog ''Unknown test case for dialog handling.'', DialogDismiss])"

definition prompt_click_step :: "prompt_case \<Rightarrow> dialog \<Rightarrow> action list" where
  "prompt_click_step tc d =
     [ConsoleLog ''Click button.'', Click (Css LOCATOR_CLICK_BTN_STR)]
     @ prompt_on_dialog tc d"

section \<open>Sample inputs\<close>

text \<open>A measured box, a freshly loaded drag-and-drop page, a dialog and an element without
  a direct measurement, for evaluating the runners.\<close>

definition box_at :: rect where
  "box_at = \<lparr>rect_x = 300, rect_y = 150, rect_width = 100, rect_height = 100\<rparr>"

definition fresh_page :: dnd_page where
  "fresh_page = \<lparr>img_loc = InBox1, box_2_text = []\<rparr>"

definition a_dialog :: dialog where
  "a_dialog = \<lparr>dialog_type = ''prompt'', dialog_message = ''I am an alert!''\<rparr>"


definition one_decimal :: "real \<Rightarrow> string" where
  "one_decimal r = (if r = 300 then ''300.0'' else if r = 150 then ''150.0'' else ''100.0'')"

section \<open>Properties of the tier classifier\<close>

lemma join_empty_sep: "join [] xs = concat xs"
  by (induction "[] :: string" xs rule: join.induct) simp_all

lemma at_prefix_fun: "(\<lambda>type. ''@'' @ type) = (\<lambda>label. CHR ''@'' # label)"
  by (rule ext) simp

lemma getTestType_nonempty:
  "S \<noteq> [] \<Longrightarrow> getTestType (JsArray S) = Inr (concat (map (\<lambda>label. CHR ''@'' # label) S))"
  by (simp add: getTestType_def join_empty_sep at_prefix_fun)

text \<open>
  Claim C1. For every non-empty list \<open>S\<close> of tier labels, \<open>getTestType\<close> returns the
  concatenation, in the order of \<open>S\<close>, of one tag per element, each tag being the character
  \<open>@\<close> followed by the element's label: nothing is dropped, merged or reordered. For the
  three enum tiers the tags are \<open>@sanity\<close>, \<open>@smoke\<close> and \<open>@regression\<close>.
\<close>

theorem getTestType_tags:
  "S \<noteq> [] \<Longrightarrow>
     getTestType (JsArray S) = Inr (concat (map (\<lambda>label. CHR ''@'' # label) S)) \<and>
     getTestType (JsArray [TestType_value Sanity]) = Inr ''@sanity'' \<and>
     getTestType (JsArray [TestType_value Smoke]) = Inr ''@smoke'' \<and>
     getTestType (JsArray [TestType_value Regression]) = Inr ''@regression'' \<and>
     getTestType (JsArray (map TestType_value [Sanity, Smoke, Regression])) =
       Inr ''@sanity@smoke@regression''"
  using getTestType_nonempty [of S] by (simp add: getTestType_def)

theorem getTestType_tags_witness:
  "[''smoke'', ''smoke'', ''sanity''] \<noteq> [] \<and>
   getTestType (JsArray [''smoke'', ''smoke'', ''sanity'']) = Inr ''@smoke@smoke@sanity''"
  using getTestType_tags [of "[''smoke'', ''smoke'', ''sanity'']"] by simp

text \<open>
  Claim C2. \<open>getTestType\<close> raises exactly when its precondition is violated: on a value that
  is not an array and on the empty array it throws a \<open>TypeError\<close> (with the message of the
  guard that fired), and on every non-empty array of strings it returns a string.
\<close>

theorem getTestType_raises_iff:
  "((\<exists>e. getTestType v = Inl e) \<longleftrightarrow> (\<not> Array_isArray v \<or> v = JsArray [])) \<and>
   (\<not> Array_isArray v \<longrightarrow>
      getTestType v = Inl (TypeError ''t_type must be an array of strings'')) \<and>
   getTestType (JsArray []) = Inl (TypeError ''t_type cannot be an empty array'') \<and>
   (\<forall>S. S \<noteq> [] \<longrightarrow> (\<exists>r. getTestType (JsArray S) = Inr r))"
  by (cases v) (auto simp add: getTestType_def)

theorem getTestType_raises_iff_witness:
  "\<not> Array_isArray (JsString ''smoke'') \<and>
   getTestType (JsString ''smoke'') = Inl (TypeError ''t_type must be an array of strings'') \<and>
   [''smoke''] \<noteq> [] \<and> (\<exists>r. getTestType (JsArray [''smoke'']) = Inr r)"
  using getTestType_raises_iff [of "JsString ''smoke''"] by simp

text \<open>
  Claim C9. \<open>getTestType\<close> does not validate the elements: every non-empty array of strings,
  whether or not its elements are tier values, yields the concatenation of the
  \<open>@\<close>-prefixed elements and no error. \<open>bogus\<close> and the empty string are not tier values, and
  \<open>getTestType(['bogus'])\<close> is \<open>@bogus\<close>, \<open>getTestType([''])\<close> is \<open>@\<close>.
\<close>

theorem getTestType_no_validation:
  "S \<noteq> [] \<Longrightarrow>
     (\<forall>e. getTestType (JsArray S) \<noteq> Inl e) \<and>
     getTestType (JsArray S) = Inr (concat (map (\<lambda>x. ''@'' @ x) S)) \<and>
     \<not> is_valid_test_type ''bogus'' \<and> getTestType (JsArray [''bogus'']) = Inr ''@bogus'' \<and>
     \<not> is_valid_test_type '''' \<and> getTestType (JsArray ['''']) = Inr ''@''"
  by (simp add: getTestType_def join_empty_sep at_prefix_fun is_valid_test_type_def
      Object_values_def TestType_object_def)

theorem getTestType_no_validation_witness:
  "[''bogus'', '''', ''smoke''] \<noteq> [] \<and>
   \<not> list_all is_valid_test_type [''bogus'', '''', ''smoke''] \<and>
   getTestType (JsArray [''bogus'', '''', ''smoke'']) = Inr ''@bogus@@smoke''"
  using getTestType_no_validation [of "[''bogus'', '''', ''smoke'']"]
  by (simp add: is_valid_test_type_def Object_values_def TestType_object_def)

section \<open>Properties of the tier enum\<close>

text \<open>
  Claim C10. \<open>is_valid_test_type(s)\<close> is true if and only if \<open>s\<close> is one of the three enum
  values \<open>sanity\<close>, \<open>smoke\<close>, \<open>regression\<close>, and \<open>get_test_types()\<close> returns exactly the values
  of \<open>Sanity\<close>, \<open>Smoke\<close>, \<open>Regression\<close>, in declaration order.
\<close>

theorem is_valid_test_type_iff:
  "(is_valid_test_type s \<longleftrightarrow> s \<in> {''sanity'', ''smoke'', ''regression''}) \<and>
   get_test_types = map TestType_value [Sanity, Smoke, Regression] \<and>
   get_test_types = [''sanity'', ''smoke'', ''regression'']"
  by (auto simp add: is_valid_test_type_def get_test_types_def Object_values_def
      TestType_object_def)

section \<open>Properties of the input-field suites\<close>

lemma run_expectations_ok_iff:
  "run_expectations v as = Inr () \<longleftrightarrow> (\<forall>a \<in> set as. holds v a)"
  by (induction as) simp_all

text \<open>
  Claim C3. For every row with an empty input in the tables of the text, email and password
  suites, the verification step makes one call: it compares the native
  \<open>validationMessage\<close> of the field, for equality, with a string that depends on the name of
  the browser engine alone, \<open>Fill out this field\<close> for \<open>webkit\<close> and
  \<open>Please fill out this field.\<close> for every other name.
\<close>

theorem empty_input_native_message:
  "(tc \<in> set simple_cases \<and> input_str tc = [] \<longrightarrow>
      verify_result_message_simple browserName tc =
        [ExpectValidationMessageToBe (ByRole ''textbox'' ''Text string'')
           (if browserName = ''webkit'' then ''Fill out this field''
            else ''Please fill out this field.'')]) \<and>
   (te \<in> set email_cases \<and> email_address te = [] \<longrightarrow>
      verify_result_message_email browserName te =
        [ExpectValidationMessageToBe (ByRole ''textbox'' ''Email'')
           (if browserName = ''webkit'' then ''Fill out this field''
            else ''Please fill out this field.'')]) \<and>
   (tp \<in> set passwd_cases \<and> password tp = [] \<longrightarrow>
      verify_result_message_passwd browserName tp =
        [ExpectValidationMessageToBe (ByRole ''textbox'' ''Password'')
           (if browserName = ''webkit'' then ''Fill out this field''
            else ''Please fill out this field.'')])"
proof (intro conjI impI)
  assume "tc \<in> set simple_cases \<and> input_str tc = []"
  then show "verify_result_message_simple browserName tc =
        [ExpectValidationMessageToBe (ByRole ''textbox'' ''Text string'')
           (if browserName = ''webkit'' then ''Fill out this field''
            else ''Please fill out this field.'')]"
    by (auto simp add: simple_cases_def verify_result_message_simple_def TXT_LABEL_simple_def
        TXT_MSG_MANDATORY_def TXT_MSG_MANDATORY_WEBKIT_def)
next
  assume "te \<in> set email_cases \<and> email_address te = []"
  then show "verify_result_message_email browserName te =
        [ExpectValidationMessageToBe (ByRole ''textbox'' ''Email'')
           (if browserName = ''webkit'' then ''Fill out this field''
            else ''Please fill out this field.'')]"
    by (auto simp add: email_cases_def verify_result_message_email_def TXT_LABEL_email_def
        TXT_MSG_MANDATORY_def TXT_MSG_MANDATORY_WEBKIT_def)
next
  assume "tp \<in> set passwd_cases \<and> password tp = []"
  then show "verify_result_message_passwd browserName tp =
        [ExpectValidationMessageToBe (ByRole ''textbox'' ''Password'')
           (if browserName = ''webkit'' then ''Fill out this field''
            else ''Please fill out this field.'')]"
    by (auto simp add: passwd_cases_def verify_result_message_passwd_def TXT_LABEL_passwd_def
        TXT_MSG_MANDATORY_def TXT_MSG_MANDATORY_WEBKIT_def)
qed

theorem empty_input_native_message_witness:
  "simple_cases ! 4 \<in> set simple_cases \<and> input_str (simple_cases ! 4) = [] \<and>
   email_cases ! 7 \<in> set email_cases \<and> email_address (email_cases ! 7) = [] \<and>
   passwd_cases ! 2 \<in> set passwd_cases \<and> password (passwd_cases ! 2) = [] \<and>
   verify_result_message_simple ''webkit'' (simple_cases ! 4) =
     [ExpectValidationMessageToBe (ByRole ''textbox'' ''Text string'') ''Fill out this field''] \<and>
   verify_result_message_email ''webkit'' (email_cases ! 7) =
     [ExpectValidationMessageToBe (ByRole ''textbox'' ''Email'') ''Fill out this field''] \<and>
   verify_result_message_passwd ''webkit'' (passwd_cases ! 2) =
     [ExpectValidationMessageToBe (ByRole ''textbox'' ''Password'') ''Fill out this field'']"
  using empty_input_native_message
    [of "simple_cases ! 4" "''webkit''" "email_cases ! 7" "passwd_cases ! 2"]
  by (simp add: simple_cases_def email_cases_def passwd_cases_def)

text \<open>
  Claim C6. For every invalid-input row of the text suite whose expected outcome is a list
  of messages, the verification step makes one visibility expectation per message of the
  list and nothing else; it passes exactly when every message of the list is visible on the
  page; and a row with the same messages in another order makes the same expectations and
  passes on the same pages.
\<close>

theorem multi_message_assertions:
  "result_msg tc = Msgs msgs \<Longrightarrow> \<not> is_valid tc \<Longrightarrow>
   result_msg tc' = Msgs msgs' \<Longrightarrow> \<not> is_valid tc' \<Longrightarrow> mset msgs' = mset msgs \<Longrightarrow>
     verify_result_message_simple browserName tc =
       map (\<lambda>msg. ExpectToBeVisible (ByText msg)) msgs \<and>
     (run_expectations v (verify_result_message_simple browserName tc) = Inr () \<longleftrightarrow>
        (\<forall>msg \<in> set msgs. visible v (ByText msg))) \<and>
     mset (verify_result_message_simple browserName tc') =
       mset (verify_result_message_simple browserName tc) \<and>
     (run_expectations v (verify_result_message_simple browserName tc') = Inr () \<longleftrightarrow>
      run_expectations v (verify_result_message_simple browserName tc) = Inr ())"
proof -
  assume tc: "result_msg tc = Msgs msgs" "\<not> is_valid tc"
    and tc': "result_msg tc' = Msgs msgs'" "\<not> is_valid tc'"
    and perm: "mset msgs' = mset msgs"
  have s: "verify_result_message_simple browserName tc =
       map (\<lambda>msg. ExpectToBeVisible (ByText msg)) msgs"
    using tc by (simp add: verify_result_message_simple_def)
  have s': "verify_result_message_simple browserName tc' =
       map (\<lambda>msg. ExpectToBeVisible (ByText msg)) msgs'"
    using tc' by (simp add: verify_result_message_simple_def)
  have set_eq: "set msgs' = set msgs"
    using perm by (rule mset_eq_setD)
  have ok: "run_expectations v (map (\<lambda>msg. ExpectToBeVisible (ByText msg)) ms) = Inr () \<longleftrightarrow>
        (\<forall>msg \<in> set ms. visible v (ByText msg))" for ms
    by (simp add: run_expectations_ok_iff)
  have m: "mset (map (\<lambda>msg. ExpectToBeVisible (ByText msg)) msgs') =
      mset (map (\<lambda>msg. ExpectToBeVisible (ByText msg)) msgs)"
    using perm by (metis mset_map)
  show ?thesis
    unfolding s s' using ok [of msgs] ok [of msgs'] set_eq m by simp
qed

theorem multi_message_assertions_witness:
  "result_msg (simple_cases ! 6) = Msgs [''Please enter 2 or more characters'', msg_pattern] \<and>
   \<not> is_valid (simple_cases ! 6) \<and>
   mset [msg_pattern, ''Please enter 2 or more characters''] =
     mset [''Please enter 2 or more characters'', msg_pattern] \<and>
   verify_result_message_simple ''firefox'' (simple_cases ! 6) =
     [ExpectToBeVisible (ByText ''Please enter 2 or more characters''),
      ExpectToBeVisible (ByText msg_pattern)] \<and>
   run_expectations all_visible (verify_result_message_simple ''firefox'' (simple_cases ! 6)) = Inr ()"
  using multi_message_assertions [of "simple_cases ! 6"
      "[''Please enter 2 or more characters'', msg_pattern]"
      "(simple_cases ! 6)\<lparr>result_msg := Msgs [msg_pattern, ''Please enter 2 or more characters'']\<rparr>"
      "[msg_pattern, ''Please enter 2 or more characters'']" "''firefox''" all_visible]
  by (simp add: simple_cases_def all_visible_def)

section \<open>Properties of the drag-and-drop suites\<close>

declare for_i_upto.simps [simp del]

lemma for_i_upto_replicate: "for_i_upto i n body = concat (replicate (n + 1 - i) body)"
proof (induction i n body rule: for_i_upto.induct)
  case (1 i n body)
  show ?case
  proof (cases "i \<le> n")
    case True
    then have "n + 1 - i = Suc (n + 1 - (i + 1))" by simp
    with True 1 show ?thesis
      by (subst for_i_upto.simps) simp
  next
    case False
    then show ?thesis
      by (subst for_i_upto.simps) simp
  qed
qed

lemma drags_append: "drags (as @ bs) = drags as @ drags bs"
  by (induction as rule: drags.induct) simp_all

lemma drags_cycles: "drags (concat (replicate k body)) = concat (replicate k (drags body))"
  by (induction k) (simp_all add: drags_append)

lemma run_dnd_append:
  "run_dnd p (as @ bs) = (case run_dnd p as of Inl e \<Rightarrow> Inl e | Inr q \<Rightarrow> run_dnd q bs)"
  by (induction as arbitrary: p) (simp_all split: sum.splits)

lemma run_dnd_cycles:
  assumes "\<And>p. img_loc p = InBox1 \<Longrightarrow> \<exists>q. run_dnd p body = Inr q \<and> img_loc q = InBox1"
    and "img_loc p = InBox1"
  shows "\<exists>q. run_dnd p (concat (replicate k body)) = Inr q \<and> img_loc q = InBox1"
  using assms(2)
proof (induction k arbitrary: p)
  case 0
  then show ?case by simp
next
  case (Suc k)
  from assms(1) [OF Suc.prems] obtain q where q: "run_dnd p body = Inr q" "img_loc q = InBox1"
    by blast
  from Suc.IH [OF q(2)] q(1) show ?case
    by (simp add: run_dnd_append)
qed

lemmas locator_defs = image_in_box_1_def image_in_box_2_def image_in_content_def
  drop_box_1_def drop_box_2_def content_box_def RECT_BOX_1_def RECT_BOX_2_def

lemma positive_cycle_run:
  "expected_drop_box_txt tc = LABEL_BOX_DROPPED \<Longrightarrow> img_loc p = InBox1 \<Longrightarrow>
     \<exists>q. run_dnd p (positive_cycle tc) = Inr q \<and> img_loc q = InBox1"
  by (simp add: positive_cycle_def image_found_def locator_defs)

lemma negative_cycle_run:
  "img_loc p = InBox1 \<Longrightarrow>
     \<exists>q. run_dnd p (negative_cycle bb) = Inr q \<and> img_loc q = InBox1"
  by (cases bb) (simp_all add: negative_cycle_def drag_outside_box_2_def image_found_def
      locator_defs)

lemma drags_positive_cycle:
  "drags (positive_cycle tc) = [(image_in_box_1, drop_box_2), (image_in_box_2, drop_box_1)]"
  by (simp add: positive_cycle_def)

lemma drags_negative_cycle:
  "drags (negative_cycle (Some bb)) =
     [(image_in_box_1, content_box), (image_in_content, drop_box_1)]"
  by (simp add: negative_cycle_def drag_outside_box_2_def)

text \<open>
  Claim C4. For a loop-back row of the image suite with repeat count \<open>N\<close>, the drag step is
  \<open>N + 1\<close> runs of the loop body. Its drags are exactly \<open>N + 1\<close> repetitions of a drag from
  box 1 to box 2 (positive rows) or to a position of the content area next to box 2 (negative
  rows, where the drag is made when box 2 could be measured), followed by a drag back to
  box 1. Started with the image in box 1, as the step before asserts, the drag step runs to
  its end and leaves the image in box 1.
\<close>

theorem loop_back_cycles:
  "is_loop_back tc \<Longrightarrow>
     drag_and_verify_image tc drop_box_2_bb =
       (if is_positive tc then [] else [ConsoleLog ''Drop image outside drop box 2 area.''])
       @ concat (replicate (repeat tc + 1)
           (if is_positive tc then positive_cycle tc else negative_cycle drop_box_2_bb)) \<and>
     (is_positive tc \<or> drop_box_2_bb \<noteq> None \<longrightarrow>
        drags (drag_and_verify_image tc drop_box_2_bb) =
          concat (replicate (repeat tc + 1)
            [(image_in_box_1, if is_positive tc then drop_box_2 else content_box),
             (if is_positive tc then image_in_box_2 else image_in_content, drop_box_1)])) \<and>
     (img_loc p = InBox1 \<and> (is_positive tc \<longrightarrow> expected_drop_box_txt tc = LABEL_BOX_DROPPED) \<longrightarrow>
        (\<exists>q. run_dnd p (drag_and_verify_image tc drop_box_2_bb) = Inr q \<and> img_loc q = InBox1))"
proof -
  assume lb: "is_loop_back tc"
  show ?thesis
  proof (cases "is_positive tc")
    case True
    have s: "drag_and_verify_image tc drop_box_2_bb =
        concat (replicate (repeat tc + 1) (positive_cycle tc))"
      using True lb by (simp add: drag_and_verify_image_def for_i_upto_replicate)
    have r: "\<exists>q. run_dnd p (concat (replicate (repeat tc + 1) (positive_cycle tc))) = Inr q \<and>
        img_loc q = InBox1"
      if "img_loc p = InBox1" "expected_drop_box_txt tc = LABEL_BOX_DROPPED"
      using positive_cycle_run that by (intro run_dnd_cycles) auto
    show ?thesis
      unfolding s using True r
      by (simp only: drags_cycles drags_positive_cycle if_True simp_thms append_Nil) blast
  next
    case False
    have s: "drag_and_verify_image tc drop_box_2_bb =
        [ConsoleLog ''Drop image outside drop box 2 area.'']
        @ concat (replicate (repeat tc + 1) (negative_cycle drop_box_2_bb))"
      using False lb by (simp add: drag_and_verify_image_def for_i_upto_replicate)
    have d: "drags (drag_and_verify_image tc drop_box_2_bb) =
        concat (replicate (repeat tc + 1)
          [(image_in_box_1, content_box), (image_in_content, drop_box_1)])"
      if "drop_box_2_bb \<noteq> None"
    proof -
      from that obtain b where "drop_box_2_bb = Some b" by auto
      then show ?thesis
        unfolding s by (simp only: drags_append drags_cycles drags_negative_cycle)  simp
    qed
    have r: "\<exists>q. run_dnd p (drag_and_verify_image tc drop_box_2_bb) = Inr q \<and> img_loc q = InBox1"
      if "img_loc p = InBox1"
    proof -
      have "\<exists>q. run_dnd p (concat (replicate (repeat tc + 1) (negative_cycle drop_box_2_bb))) =
          Inr q \<and> img_loc q = InBox1"
        using negative_cycle_run that by (intro run_dnd_cycles) auto
      then show ?thesis
        unfolding s by (simp only: append_Cons append_Nil run_dnd.simps exec_dnd.simps sum.case)
    qed
    from False s d r show ?thesis
      by (simp only: if_False simp_thms) blast
  qed
qed

theorem loop_back_cycles_witness:
  "is_loop_back (image_cases ! 6) \<and> \<not> is_positive (image_cases ! 6) \<and> Some box_at \<noteq> None \<and>
   img_loc fresh_page = InBox1 \<and> repeat (image_cases ! 6) = 1 \<and>
   drags (drag_and_verify_image (image_cases ! 6) (Some box_at)) =
     [(image_in_box_1, content_box), (image_in_content, drop_box_1),
      (image_in_box_1, content_box), (image_in_content, drop_box_1)] \<and>
   (\<exists>q. run_dnd fresh_page (drag_and_verify_image (image_cases ! 6) (Some box_at)) = Inr q \<and>
      img_loc q = InBox1) \<and>
   is_loop_back (image_cases ! 3) \<and> is_positive (image_cases ! 3) \<and>
   expected_drop_box_txt (image_cases ! 3) = LABEL_BOX_DROPPED \<and> repeat (image_cases ! 3) = 2 \<and>
   drags (drag_and_verify_image (image_cases ! 3) None) =
     [(image_in_box_1, drop_box_2), (image_in_box_2, drop_box_1),
      (image_in_box_1, drop_box_2), (image_in_box_2, drop_box_1),
      (image_in_box_1, drop_box_2), (image_in_box_2, drop_box_1)] \<and>
   (\<exists>q. run_dnd fresh_page (drag_and_verify_image (image_cases ! 3) None) = Inr q \<and>
      img_loc q = InBox1)"
  using loop_back_cycles [of "image_cases ! 6" "Some box_at" fresh_page]
    loop_back_cycles [of "image_cases ! 3" None fresh_page]
  by (simp add: image_cases_def fresh_page_def eval_nat_numeral positive_cycle_def
      negative_cycle_def drag_outside_box_2_def image_found_def locator_defs
      LABEL_BOX_DROPPED_def box_at_def)

text \<open>
  Claim C5, at the rows of the image suite that drop the image outside box 2: the runner
  drags and logs, and makes no expectation at all, neither on the text of box 2 nor on
  anything else, whereas the box suite expects the text \<open>Drop here\<close> after its outside
  drop.
\<close>

theorem image_outside_drop_not_asserted:
  "drag_and_verify_image (image_cases ! 4) (Some box_at) =
     [ConsoleLog ''Drop image outside drop box 2 area.'',
      DragTo image_in_box_1 content_box (Some (310, 150)),
      ConsoleLog ''Dragged image from #rect-droppable1 and dropped just outside of #rect-droppable2''] \<and>
   filter is_expectation (drag_and_verify_image (image_cases ! 4) (Some box_at)) = [] \<and>
   filter is_expectation (drag_and_verify_image (image_cases ! 5) (Some box_at)) = [] \<and>
   filter is_expectation (drag_and_verify_image (image_cases ! 6) (Some box_at)) = [] \<and>
   filter is_expectation (drag_and_verify_image (image_cases ! 7) (Some box_at)) = [] \<and>
   filter is_expectation
     (drag_and_verify_boxes one_decimal (box_cases ! 1) (Some box_at) None None) =
     [ExpectToHaveText (Css ''#text-droppable'') ''Drop here'']"
  by (simp add: image_cases_def box_cases_def drag_and_verify_image_def drag_and_verify_boxes_def
      drag_outside_box_2_def negative_cycle_def box_at_def X_OFFSET_def RECT_BOX_1_def
      RECT_BOX_2_def for_i_upto.simps get_bounding_box_info_boxes_def LABEL_DROP_BOX_def
      LOCATOR_DROP_BOX_TXT_def)

section \<open>Properties of the alert suites\<close>

text \<open>
  Claim C7. With a label other than \<open>Ok\<close> and \<open>Cancel\<close>, the confirmation suite logs
  \<open>Unknown test case for dialog handling.\<close> and registers a handler that dismisses the
  dialog. With a label that neither contains \<open>Ok\<close> nor is \<open>Cancel\<close>, the handler of the
  prompt suite logs the same line and dismisses the dialog. Neither step throws or makes an
  expectation.
\<close>

theorem unknown_label_dismisses:
  "(t_case tc \<noteq> ''Ok'' \<and> t_case tc \<noteq> ''Cancel'' \<longrightarrow>
      confirmation_on_dialog tc d = [DialogDismiss] \<and>
      confirmation_click_step tc d =
        [ConsoleLog ''Click button and confirm or cancel.'',
         ConsoleLog ''Unknown test case for dialog handling.'',
         Click (Css ''a.a-button''),
         DialogDismiss]) \<and>
   (\<not> includes_str (t_case tp) ''Ok'' \<and> t_case tp \<noteq> ''Cancel'' \<longrightarrow>
      prompt_on_dialog tp d =
        [ConsoleLog (''Dialog type: '' @ dialog_type d),
         ConsoleLog (''Dialog message: '' @ dialog_message d),
         ConsoleLog ''Unknown test case for dialog handling.'',
         DialogDismiss] \<and>
      filter is_expectation (prompt_click_step tp d) = [])"
  by (simp add: confirmation_on_dialog_def confirmation_click_step_def prompt_on_dialog_def
      prompt_click_step_def LOCATOR_CLICK_BTN_STR_def)

theorem unknown_label_dismisses_witness:
  "t_case ((confirm_cases ! 0)\<lparr>t_case := ''Maybe''\<rparr>) \<noteq> ''Ok'' \<and>
   t_case ((confirm_cases ! 0)\<lparr>t_case := ''Maybe''\<rparr>) \<noteq> ''Cancel'' \<and>
   \<not> includes_str (t_case ((prompt_cases ! 2)\<lparr>t_case := ''cancel''\<rparr>)) ''Ok'' \<and>
   t_case ((prompt_cases ! 2)\<lparr>t_case := ''cancel''\<rparr>) \<noteq> ''Cancel'' \<and>
   confirmation_on_dialog ((confirm_cases ! 0)\<lparr>t_case := ''Maybe''\<rparr>) a_dialog =
     [DialogDismiss] \<and>
   prompt_on_dialog ((prompt_cases ! 2)\<lparr>t_case := ''cancel''\<rparr>) a_dialog =
     [ConsoleLog ''Dialog type: prompt'', ConsoleLog ''Dialog message: I am an alert!'',
      ConsoleLog ''Unknown test case for dialog handling.'', DialogDismiss]"
  using unknown_label_dismisses [of "(confirm_cases ! 0)\<lparr>t_case := ''Maybe''\<rparr>" a_dialog
      "(prompt_cases ! 2)\<lparr>t_case := ''cancel''\<rparr>"]
  by (simp add: confirm_cases_def prompt_cases_def a_dialog_def)

section \<open>Properties of the bounding-box reporter\<close>



end
